theory Spec2Isabelle
  imports Complex_Main
begin

section \<open>ResNet-34 notebook: residual unit and network builder\<close>

text \<open>
  The notebook \<^verbatim>\<open>main.ipynb\<close> has two code cells. The first defines
  \<^verbatim>\<open>DefaultConv2D\<close> (a partial application of the engine's convolution layer) and the
  class \<^verbatim>\<open>ResUnit\<close> with its constructor and its \<^verbatim>\<open>call\<close> method. The second builds
  the sequential model: a stem, one \<^verbatim>\<open>ResUnit\<close> per entry of the filter schedule, and a
  classification head.

  The layers themselves (convolution, batch normalisation, activation, pooling, dense)
  belong to the external layer engine. The embedding keeps of each layer what the
  notebook decides: its kind and its configuration arguments, and which layer object it
  is. What a layer computes on a tensor is a parameter of the evaluation functions.
\<close>

subsection \<open>Layers\<close>

text \<open>
  The configuration of an engine layer, with the keyword arguments the notebook sets.
  The arguments of \<open>Conv2D\<close> are, in order: filters, kernel size, strides, padding,
  kernel initializer, use of a bias term, and the optional input shape.
  The arguments of \<open>MaxPool2D\<close> are pool size, strides and padding; those of \<open>Dense\<close> are
  the number of units and the activation.
\<close>

datatype layer_config =
    Conv2D int int int string string bool "int list option"
  | BatchNormalization
  | Activation string
  | MaxPool2D int int string
  | GlobalAvgPool2D
  | Flatten
  | Dense int string

text \<open>
  Every call of a layer constructor creates a new layer object, with parameters of its
  own. Object identity is a number: a constructor takes the next unused number and the
  code that calls it passes the following one on. Two layers with the same configuration
  and different numbers are different objects; the same number occurring twice is one
  shared object. A layer constructor is taken to accept the arguments it is given: the
  notebook itself checks none of them.
\<close>

datatype layer = Layer (ident: nat) (config: layer_config)

text \<open>
  \<^verbatim>\<open>DefaultConv2D = partial(Conv2D, kernel_size=3, strides=1, padding="same",
  kernel_initializer="he_normal", use_bias=False)\<close>.
  A keyword given at the call replaces the default of the partial application; the
  notebook passes only \<^verbatim>\<open>kernel_size\<close>, \<^verbatim>\<open>strides\<close> and \<^verbatim>\<open>input_shape\<close>, which are the
  optional arguments here (\<open>None\<close>: keyword not given).
\<close>

definition DefaultConv2D :: "int \<Rightarrow> int option \<Rightarrow> int option \<Rightarrow> int list option \<Rightarrow> layer_config" where
  "DefaultConv2D filters kernel_size_kw strides_kw input_shape_kw =
     Conv2D filters
       (case kernel_size_kw of None \<Rightarrow> 3 | Some k \<Rightarrow> k)
       (case strides_kw of None \<Rightarrow> 1 | Some s \<Rightarrow> s)
       ''same'' ''he_normal'' False input_shape_kw"

subsection \<open>The residual unit\<close>

record res_unit =
  activation :: layer
  main_layers :: "layer list"
  skip_layers :: "layer list"

text \<open>
  \<^verbatim>\<open>ResUnit.__init__(self, filters, strides=1, activation="relu")\<close>, started with
  \<open>n\<close> as the next unused layer number. It returns the unit and the next unused number.
  The activation layer is created first and the same object is placed in the main path.
\<close>

definition ResUnit_init :: "int \<Rightarrow> int \<Rightarrow> string \<Rightarrow> nat \<Rightarrow> res_unit \<times> nat" where
  "ResUnit_init filters strides activation_name n =
     (let act = Layer n (Activation activation_name);
          main = [Layer (n + 1) (DefaultConv2D filters None (Some strides) None),
                  Layer (n + 2) BatchNormalization,
                  act,
                  Layer (n + 3) (DefaultConv2D filters None None None),
                  Layer (n + 4) BatchNormalization]
      in if 1 < strides
         then (\<lparr>activation = act, main_layers = main,
                 skip_layers = [Layer (n + 5) (DefaultConv2D filters (Some 1) (Some strides) None),
                                Layer (n + 6) BatchNormalization]\<rparr>, n + 7)
         else (\<lparr>activation = act, main_layers = main, skip_layers = []\<rparr>, n + 5))"

subsection \<open>Evaluation\<close>

text \<open>
  Applying a layer may raise in the engine; the exception leaves \<^verbatim>\<open>call\<close> unhandled.
  A result is \<open>Inl e\<close> for an exception \<open>e\<close> and \<open>Inr t\<close> for a tensor \<open>t\<close>.
\<close>

definition then_do :: "'e + 'a \<Rightarrow> ('a \<Rightarrow> 'e + 'b) \<Rightarrow> 'e + 'b" where
  "then_do r k = (case r of Inl e \<Rightarrow> Inl e | Inr v \<Rightarrow> k v)"

text \<open>
  The engine is a parameter: \<open>engine c p t\<close> is what a layer of configuration \<open>c\<close> with
  parameter values \<open>p\<close> returns on the tensor \<open>t\<close>, and \<open>params i\<close> are the current
  parameter values of the layer object \<open>i\<close>.
\<close>

definition apply_layer ::
  "(layer_config \<Rightarrow> 'p \<Rightarrow> 't \<Rightarrow> 'e + 't) \<Rightarrow> (nat \<Rightarrow> 'p) \<Rightarrow> layer \<Rightarrow> 't \<Rightarrow> 'e + 't" where
  "apply_layer engine params l t = engine (config l) (params (ident l)) t"

text \<open>\<^verbatim>\<open>for layer in layers: output = layer(output)\<close>\<close>

fun run_layers ::
  "(layer_config \<Rightarrow> 'p \<Rightarrow> 't \<Rightarrow> 'e + 't) \<Rightarrow> (nat \<Rightarrow> 'p) \<Rightarrow> layer list \<Rightarrow> 't \<Rightarrow> 'e + 't" where
  "run_layers engine params [] output = Inr output"
| "run_layers engine params (l # ls) output =
     then_do (apply_layer engine params l output) (run_layers engine params ls)"

text \<open>
  \<^verbatim>\<open>ResUnit.call(self, inputs)\<close>. The elementwise addition \<open>add\<close> is the engine's too.
  The method assigns no attribute of \<open>self\<close>: the unit it leaves behind, the first
  component, is the unit it was called on. The second component is what it returns.
\<close>

definition call ::
  "(layer_config \<Rightarrow> 'p \<Rightarrow> 't \<Rightarrow> 'e + 't) \<Rightarrow> ('t \<Rightarrow> 't \<Rightarrow> 'e + 't) \<Rightarrow> (nat \<Rightarrow> 'p) \<Rightarrow>
   res_unit \<Rightarrow> 't \<Rightarrow> res_unit \<times> ('e + 't)" where
  "call engine add params self inputs =
     (self,
      then_do (run_layers engine params (main_layers self) inputs) (\<lambda>main_output.
      then_do (run_layers engine params (skip_layers self) inputs) (\<lambda>skip_output.
      then_do (add main_output skip_output) (\<lambda>s.
      apply_layer engine params (activation self) s))))"

text \<open>
  The states a unit goes through in its life: the constructed unit, and what any call
  leaves behind.
\<close>

inductive_set lifetime ::
  "(layer_config \<Rightarrow> 'p \<Rightarrow> 't \<Rightarrow> 'e + 't) \<Rightarrow> ('t \<Rightarrow> 't \<Rightarrow> 'e + 't) \<Rightarrow> res_unit \<Rightarrow> res_unit set"
  for engine :: "layer_config \<Rightarrow> 'p \<Rightarrow> 't \<Rightarrow> 'e + 't" and add :: "'t \<Rightarrow> 't \<Rightarrow> 'e + 't"
    and constructed :: res_unit
where
  lifetime_init: "constructed \<in> lifetime engine add constructed"
| lifetime_call: "u \<in> lifetime engine add constructed \<Longrightarrow>
     fst (call engine add params u inputs) \<in> lifetime engine add constructed"

subsection \<open>The network builder\<close>

text \<open>An element of the sequential model: an engine layer or a residual unit.\<close>

datatype model_layer = Prim layer | Unit res_unit

text \<open>\<^verbatim>\<open>filter_configuration = [64] * 3 + [128] * 4 + [256] * 6 + [512] * 3\<close>\<close>

definition filter_configuration :: "int list" where
  "filter_configuration = replicate 3 64 @ replicate 4 128 @ replicate 6 256 @ replicate 3 512"

text \<open>
  The first four layers, passed to \<^verbatim>\<open>tf.keras.Sequential\<close>; they take the layer
  numbers from \<open>n\<close> on.
\<close>

definition stem :: "nat \<Rightarrow> model_layer list \<times> nat" where
  "stem n =
     ([Prim (Layer n (DefaultConv2D 64 (Some 7) (Some 2) (Some [224, 224, 3]))),
       Prim (Layer (n + 1) BatchNormalization),
       Prim (Layer (n + 2) (Activation ''relu'')),
       Prim (Layer (n + 3) (MaxPool2D 3 2 ''same''))], n + 4)"

text \<open>
  The loop over the schedule. Its state is the model built so far, \<^verbatim>\<open>previous_filters\<close>
  and the next unused layer number. The unit is constructed with the default activation.
\<close>

fun add_res_units :: "int list \<Rightarrow> int \<Rightarrow> model_layer list \<Rightarrow> nat \<Rightarrow> model_layer list \<times> int \<times> nat" where
  "add_res_units [] previous_filters model n = (model, previous_filters, n)"
| "add_res_units (filters # rest) previous_filters model n =
     (let strides = (if filters = previous_filters then 1 else 2);
          (unit, n') = ResUnit_init filters strides ''relu'' n
      in add_res_units rest filters (model @ [Unit unit]) n')"

text \<open>
  The second cell as a function of the two values it starts from, the schedule and the
  initial \<^verbatim>\<open>previous_filters\<close>; \<open>model\<close> is the cell as written. \<^verbatim>\<open>model.add\<close> appends
  to the sequence of layers.
\<close>

definition build :: "int list \<Rightarrow> int \<Rightarrow> model_layer list" where
  "build schedule previous_filters =
     (let (model0, n0) = stem 0;
          (model1, previous_filters', n1) = add_res_units schedule previous_filters model0 n0
      in model1 @ [Prim (Layer n1 GlobalAvgPool2D),
                   Prim (Layer (n1 + 1) Flatten),
                   Prim (Layer (n1 + 2) (Dense 10 ''softmax''))])"

definition model :: "model_layer list" where
  "model = build filter_configuration 64"

subsection \<open>Reading a built model\<close>

text \<open>The residual units of a model, in model order.\<close>

definition res_units :: "model_layer list \<Rightarrow> res_unit list" where
  "res_units m = concat (map (\<lambda>x. case x of Prim l \<Rightarrow> [] | Unit u \<Rightarrow> [u]) m)"

text \<open>
  A unit does not store the \<^verbatim>\<open>strides\<close> it was constructed with; the value is read
  off the first convolution of its main path (\<open>None\<close> if there is no such layer).
\<close>

definition unit_strides :: "res_unit \<Rightarrow> int option" where
  "unit_strides u =
     (case main_layers u of
        Layer i (Conv2D filters kernel_size strides padding ini bias ish) # rest \<Rightarrow> Some strides
      | _ \<Rightarrow> None)"

text \<open>The class count of a model: the units of the dense layer it ends with.\<close>

definition num_classes :: "model_layer list \<Rightarrow> int option" where
  "num_classes m =
     (case rev m of
        Prim (Layer i (Dense units a)) # rest \<Rightarrow> Some units
      | _ \<Rightarrow> None)"

text \<open>The layer objects of a unit: its activation, its main path, its skip path.\<close>

definition unit_layer_ids :: "res_unit \<Rightarrow> nat list" where
  "unit_layer_ids u = map ident (activation u # main_layers u @ skip_layers u)"

subsection \<open>A shape-level engine\<close>

text \<open>
  One instance of the engine parameter, on shapes instead of tensors: a tensor is
  replaced by its list of dimensions, (batch, height, width, channels) for a feature
  tensor. It serves where a statement needs a concrete engine.
\<close>

datatype engine_error = ShapeError | InvalidArgument

definition ceil_div :: "int \<Rightarrow> int \<Rightarrow> int" where
  "ceil_div a b = - ((- a) div b)"

definition all_positive :: "int list \<Rightarrow> bool" where
  "all_positive s = list_all (\<lambda>d. 1 \<le> d) s"

text \<open>
  Modelled from the spec: the layer engine is outside the repository and is described
  only by its contract. The spec gives the rule of "same" padding (output spatial size
  = ceil(input / stride)) and the output shape of a convolution (the configured channel
  count); normalisation and activation keep the shape; global average pooling removes
  the two spatial dimensions, flattening joins all dimensions after the batch, and a
  dense layer replaces the last dimension by its number of units. These last rules are
  the engine's documented ones; the spec only names the layers. A convolution that
  declares an input shape takes only inputs of that shape.

  The rules are given where every dimension is at least 1 and the layer is of the kind
  the notebook uses ("same" padding; filter count, window, stride and units at least
  1). Everywhere else the answer is \<open>InvalidArgument\<close>, which stands for no statement
  about the engine. Layers have no parameter values at this level.
\<close>

definition shape_engine :: "layer_config \<Rightarrow> unit \<Rightarrow> int list \<Rightarrow> engine_error + int list" where
  "shape_engine c p t =
     (if all_positive t then
        (case c of
           Conv2D filters kernel_size strides padding ini bias ish \<Rightarrow>
             (case t of
                [n, h, w, ch] \<Rightarrow>
                  if 1 \<le> filters \<and> 1 \<le> kernel_size \<and> 1 \<le> strides \<and> padding = ''same'' then
                    (case ish of
                       None \<Rightarrow> Inr [n, ceil_div h strides, ceil_div w strides, filters]
                     | Some sh \<Rightarrow>
                         if sh = [h, w, ch]
                         then Inr [n, ceil_div h strides, ceil_div w strides, filters]
                         else Inl ShapeError)
                  else Inl InvalidArgument
              | _ \<Rightarrow> Inl ShapeError)
         | BatchNormalization \<Rightarrow> Inr t
         | Activation a \<Rightarrow> Inr t
         | MaxPool2D pool_size strides padding \<Rightarrow>
             (case t of
                [n, h, w, ch] \<Rightarrow>
                  if 1 \<le> pool_size \<and> 1 \<le> strides \<and> padding = ''same''
                  then Inr [n, ceil_div h strides, ceil_div w strides, ch]
                  else Inl InvalidArgument
              | _ \<Rightarrow> Inl ShapeError)
         | GlobalAvgPool2D \<Rightarrow>
             (case t of [n, h, w, ch] \<Rightarrow> Inr [n, ch] | _ \<Rightarrow> Inl ShapeError)
         | Flatten \<Rightarrow>
             (case t of [] \<Rightarrow> Inl ShapeError | n # ds \<Rightarrow> Inr [n, prod_list ds])
         | Dense units a \<Rightarrow>
             (case t of
                [] \<Rightarrow> Inl ShapeError
              | [d] \<Rightarrow> Inl ShapeError
              | _ \<Rightarrow> if 1 \<le> units then Inr (butlast t @ [units]) else Inl InvalidArgument))
      else Inl InvalidArgument)"

text \<open>
  Modelled from the spec: the elementwise addition is the engine's; the spec says only
  that a shape mismatch surfaces as whatever this operation raises. The rule below is
  not in the spec, it is the engine's own: the addition broadcasts. The shapes are
  aligned at the last dimension, two dimensions are compatible when they are equal or
  one of them is 1, and anything else is raised as an error. \<open>broadcast\<close> works on
  the reversed shapes. As for the layers, the rule is given where every dimension is at
  least 1.
\<close>

fun broadcast :: "int list \<Rightarrow> int list \<Rightarrow> engine_error + int list" where
  "broadcast [] ys = Inr ys"
| "broadcast (x # xs) [] = Inr (x # xs)"
| "broadcast (x # xs) (y # ys) =
     (if x = y \<or> y = 1 then then_do (broadcast xs ys) (\<lambda>r. Inr (x # r))
      else if x = 1 then then_do (broadcast xs ys) (\<lambda>r. Inr (y # r))
      else Inl ShapeError)"

definition shape_add :: "int list \<Rightarrow> int list \<Rightarrow> engine_error + int list" where
  "shape_add a b =
     (if all_positive a \<and> all_positive b
      then then_do (broadcast (rev a) (rev b)) (\<lambda>r. Inr (rev r))
      else Inl InvalidArgument)"

definition no_params :: "nat \<Rightarrow> unit" where
  "no_params i = ()"

subsection \<open>A recording engine\<close>

text \<open>
  A second instance of the engine parameter, in which nothing is computed and nothing
  is lost: a tensor is the list of the layer applications that produced it, each with
  its configuration and the parameter value it was applied with (a number), and the
  addition joins the two lists. \<open>params_from k\<close> gives the layer object \<open>k + j\<close> the
  parameter value \<open>j\<close>.
\<close>

definition trace_engine ::
  "layer_config \<Rightarrow> nat \<Rightarrow> (layer_config \<times> nat) list \<Rightarrow> engine_error + (layer_config \<times> nat) list" where
  "trace_engine c p t = Inr (t @ [(c, p)])"

definition trace_add ::
  "(layer_config \<times> nat) list \<Rightarrow> (layer_config \<times> nat) list \<Rightarrow> engine_error + (layer_config \<times> nat) list" where
  "trace_add a b = Inr (a @ b)"

definition params_from :: "nat \<Rightarrow> nat \<Rightarrow> nat" where
  "params_from k i = i - k"

text \<open>
  Modelled from the spec: the sequential container is the engine's too. The network is
  "an ordered sequence of layers" through which "data flows strictly forward": each
  element is applied to the output of the one before it, a residual unit through its
  \<^verbatim>\<open>call\<close>.
\<close>

fun run_model ::
  "(layer_config \<Rightarrow> 'p \<Rightarrow> 't \<Rightarrow> 'e + 't) \<Rightarrow> ('t \<Rightarrow> 't \<Rightarrow> 'e + 't) \<Rightarrow> (nat \<Rightarrow> 'p) \<Rightarrow>
   model_layer list \<Rightarrow> 't \<Rightarrow> 'e + 't" where
  "run_model engine add params [] t = Inr t"
| "run_model engine add params (Prim l # ls) t =
     then_do (apply_layer engine params l t) (run_model engine add params ls)"
| "run_model engine add params (Unit u # ls) t =
     then_do (snd (call engine add params u t)) (run_model engine add params ls)"

subsection \<open>The engine's contract\<close>

text \<open>
  Modelled from the spec: what the notebook relies on in an engine over real tensors.
  \<open>shape_of\<close> reads the shape of a tensor. Wherever the shape rules above give a
  shape, the engine's layer, and its addition, return a tensor of that shape. Nothing
  is said about when the engine raises.
\<close>

definition follows_shapes ::
  "(layer_config \<Rightarrow> 'p \<Rightarrow> 't \<Rightarrow> 'e + 't) \<Rightarrow> ('t \<Rightarrow> 't \<Rightarrow> 'e + 't) \<Rightarrow> ('t \<Rightarrow> int list) \<Rightarrow> bool" where
  "follows_shapes engine add shape_of =
     ((\<forall>c p t s. shape_engine c () (shape_of t) = Inr s \<longrightarrow>
          (\<exists>y. engine c p t = Inr y \<and> shape_of y = s))
    \<and> (\<forall>a b s. shape_add (shape_of a) (shape_of b) = Inr s \<longrightarrow>
          (\<exists>y. add a b = Inr y \<and> shape_of y = s)))"

text \<open>
  Modelled from the spec: "softmax normalization" gives "class probabilities (rows sum
  to 1)", "within floating-point tolerance". \<open>rows\<close> reads the rows of a tensor of two
  dimensions, the entries being real numbers, and \<open>eps\<close> is the tolerance. What a dense
  layer with softmax returns with shape \<open>[n, units]\<close> has \<open>n\<close> rows of \<open>units\<close> entries,
  none of them negative, and each row sums to 1 within \<open>eps\<close>.
\<close>

definition softmax_contract ::
  "(layer_config \<Rightarrow> 'p \<Rightarrow> 't \<Rightarrow> 'e + 't) \<Rightarrow> ('t \<Rightarrow> int list) \<Rightarrow> ('t \<Rightarrow> real list list) \<Rightarrow> real \<Rightarrow> bool" where
  "softmax_contract engine shape_of rows eps =
     (\<forall>units p t y n. engine (Dense units ''softmax'') p t = Inr y \<and> shape_of y = [n, units] \<longrightarrow>
        length (rows y) = nat n
        \<and> list_all (\<lambda>r. int (length r) = units \<and> list_all (\<lambda>v. 0 \<le> v) r
                         \<and> \<bar>sum_list r - 1\<bar> \<le> eps) (rows y))"

text \<open>
  An engine that meets both contracts: shapes as above, and every weight zero, so that
  a dense layer with softmax returns the uniform distribution in each row. A tensor is
  its shape and, after a dense layer, its rows.
\<close>

definition uniform_engine ::
  "layer_config \<Rightarrow> unit \<Rightarrow> int list \<times> real list list \<Rightarrow> engine_error + int list \<times> real list list" where
  "uniform_engine c p t =
     then_do (shape_engine c p (fst t)) (\<lambda>s.
       Inr (s, case c of
                 Dense units a \<Rightarrow>
                   (case s of
                      [n, k] \<Rightarrow> replicate (nat n) (replicate (nat k) (1 / of_int k))
                    | _ \<Rightarrow> [])
               | _ \<Rightarrow> []))"

definition uniform_add ::
  "int list \<times> real list list \<Rightarrow> int list \<times> real list list \<Rightarrow> engine_error + int list \<times> real list list" where
  "uniform_add a b = then_do (shape_add (fst a) (fst b)) (\<lambda>s. Inr (s, []))"

subsection \<open>Evaluation over an engine that may answer in more than one way\<close>

text \<open>
  \<^verbatim>\<open>ResUnit.call\<close> once more, now without taking for granted that the engine answers the
  same question twice in the same way: a layer application, and an addition, has a set
  of possible results, and so has the call. The body is the one of \<open>call\<close>.
\<close>

definition then_any :: "('e + 'a) set \<Rightarrow> ('a \<Rightarrow> ('e + 'b) set) \<Rightarrow> ('e + 'b) set" where
  "then_any R k = (\<Union>r\<in>R. case r of Inl e \<Rightarrow> {Inl e} | Inr v \<Rightarrow> k v)"

fun run_layers_any ::
  "(layer_config \<Rightarrow> 'p \<Rightarrow> 't \<Rightarrow> ('e + 't) set) \<Rightarrow> (nat \<Rightarrow> 'p) \<Rightarrow> layer list \<Rightarrow> 't \<Rightarrow> ('e + 't) set" where
  "run_layers_any engine params [] output = {Inr output}"
| "run_layers_any engine params (l # ls) output =
     then_any (engine (config l) (params (ident l)) output) (run_layers_any engine params ls)"

definition call_outcomes ::
  "(layer_config \<Rightarrow> 'p \<Rightarrow> 't \<Rightarrow> ('e + 't) set) \<Rightarrow> ('t \<Rightarrow> 't \<Rightarrow> ('e + 't) set) \<Rightarrow> (nat \<Rightarrow> 'p) \<Rightarrow>
   res_unit \<Rightarrow> 't \<Rightarrow> ('e + 't) set" where
  "call_outcomes engine add params self inputs =
     then_any (run_layers_any engine params (main_layers self) inputs) (\<lambda>main_output.
     then_any (run_layers_any engine params (skip_layers self) inputs) (\<lambda>skip_output.
     then_any (add main_output skip_output) (\<lambda>s.
     engine (config (activation self)) (params (ident (activation self))) s)))"

text \<open>
  Modelled from the spec: the engine's transformations are pure, "no hidden global
  state": asked with the same configuration, parameter values and input, a layer has
  at most one possible result, and so has the addition.
\<close>

definition at_most_one :: "'a set \<Rightarrow> bool" where
  "at_most_one S = (\<forall>a\<in>S. \<forall>b\<in>S. a = b)"

definition deterministic_engine :: "(layer_config \<Rightarrow> 'p \<Rightarrow> 't \<Rightarrow> ('e + 't) set) \<Rightarrow> bool" where
  "deterministic_engine engine = (\<forall>c p t. at_most_one (engine c p t))"

definition deterministic_add :: "('t \<Rightarrow> 't \<Rightarrow> ('e + 't) set) \<Rightarrow> bool" where
  "deterministic_add add = (\<forall>a b. at_most_one (add a b))"

text \<open>
  An engine given as a function has exactly one possible result each time. The second
  engine below has two for an activation layer: it may or may not record it.
\<close>

definition sure_engine ::
  "(layer_config \<Rightarrow> 'p \<Rightarrow> 't \<Rightarrow> 'e + 't) \<Rightarrow> layer_config \<Rightarrow> 'p \<Rightarrow> 't \<Rightarrow> ('e + 't) set" where
  "sure_engine f c p t = {f c p t}"

definition sure_add :: "('t \<Rightarrow> 't \<Rightarrow> 'e + 't) \<Rightarrow> 't \<Rightarrow> 't \<Rightarrow> ('e + 't) set" where
  "sure_add g a b = {g a b}"

definition unsure_engine ::
  "layer_config \<Rightarrow> nat \<Rightarrow> (layer_config \<times> nat) list \<Rightarrow> (engine_error + (layer_config \<times> nat) list) set" where
  "unsure_engine c p t =
     (case c of
        Activation a \<Rightarrow> {Inr t, Inr (t @ [(c, p)])}
      | _ \<Rightarrow> {Inr t})"

section \<open>Properties\<close>

subsection \<open>Auxiliary facts\<close>

lemma then_do_Inl [simp]: "then_do (Inl e) k = Inl e"
  by (simp add: then_do_def)

lemma then_do_Inr [simp]: "then_do (Inr v) k = k v"
  by (simp add: then_do_def)

lemma then_do_return [simp]: "then_do r Inr = r"
  by (simp add: then_do_def split: sum.splits)

lemma then_do_assoc: "then_do (then_do r k) k' = then_do r (\<lambda>v. then_do (k v) k')"
  by (simp add: then_do_def split: sum.splits)

lemma run_layers_Nil_fun: "run_layers engine params [] = Inr"
  by (rule ext) simp

lemma run_layers_Cons_fun:
  "run_layers engine params (l # ls) =
     (\<lambda>t. then_do (apply_layer engine params l t) (run_layers engine params ls))"
  by (rule ext) simp

lemma filter_configuration_eq:
  "filter_configuration = [64,64,64,128,128,128,128,256,256,256,256,256,256,512,512,512]"
  by (simp add: filter_configuration_def numeral_eq_Suc)

text \<open>The unit a constructor call returns, written out.\<close>

lemma ResUnit_init_fst:
  "fst (ResUnit_init filters strides activation_name n) =
     \<lparr>activation = Layer n (Activation activation_name),
      main_layers =
        [Layer (n + 1) (Conv2D filters 3 strides ''same'' ''he_normal'' False None),
         Layer (n + 2) BatchNormalization,
         Layer n (Activation activation_name),
         Layer (n + 3) (Conv2D filters 3 1 ''same'' ''he_normal'' False None),
         Layer (n + 4) BatchNormalization],
      skip_layers =
        (if 1 < strides
         then [Layer (n + 5) (Conv2D filters 1 strides ''same'' ''he_normal'' False None),
               Layer (n + 6) BatchNormalization]
         else [])\<rparr>"
  by (simp add: ResUnit_init_def Let_def DefaultConv2D_def)

text \<open>
  The loop appends one unit per schedule entry to the model it is given, in schedule
  order; the unit of an entry is constructed with that entry as \<^verbatim>\<open>filters\<close> and with
  stride 1 if the entry equals the one before it (the initial \<^verbatim>\<open>previous_filters\<close> for
  the first entry), else 2. It leaves \<^verbatim>\<open>previous_filters\<close> at the last entry.
\<close>

lemma add_res_units_units:
  "\<exists>us n'. add_res_units schedule previous_filters m n =
              (m @ map Unit us, last (previous_filters # schedule), n')
     \<and> list_all2
          (\<lambda>u (filters, previous).
              \<exists>i. u = fst (ResUnit_init filters (if filters = previous then 1 else 2) ''relu'' i))
          us (zip schedule (previous_filters # schedule))"
proof (induction schedule arbitrary: previous_filters m n)
  case Nil
  show ?case by simp
next
  case (Cons filters rest)
  define strides :: int where "strides = (if filters = previous_filters then 1 else 2)"
  obtain u n1 where init: "ResUnit_init filters strides ''relu'' n = (u, n1)"
    by (cases "ResUnit_init filters strides ''relu'' n")
  from Cons.IH [of filters "m @ [Unit u]" n1]
  obtain us n' where
    rest: "add_res_units rest filters (m @ [Unit u]) n1 =
             ((m @ [Unit u]) @ map Unit us, last (filters # rest), n')"
    and units: "list_all2
          (\<lambda>u (filters, previous).
              \<exists>i. u = fst (ResUnit_init filters (if filters = previous then 1 else 2) ''relu'' i))
          us (zip rest (filters # rest))"
    by blast
  have u: "u = fst (ResUnit_init filters (if filters = previous_filters then 1 else 2) ''relu'' n)"
    using init by (simp add: strides_def)
  have "add_res_units (filters # rest) previous_filters m n =
          (m @ map Unit (u # us), last (previous_filters # filters # rest), n')"
    using init rest by (simp add: strides_def)
  moreover have "list_all2
          (\<lambda>u (filters, previous).
              \<exists>i. u = fst (ResUnit_init filters (if filters = previous then 1 else 2) ''relu'' i))
          (u # us) (zip (filters # rest) (previous_filters # filters # rest))"
    using u units by auto
  ultimately show ?case by blast
qed

text \<open>
  On shapes, the model as built maps a batch of at least one 224 x 224 image with 3
  channels to one row of 10 entries per image, and no layer and no addition raises on
  the way: every unit with an identity skip path receives an input that already has
  its channel count.
\<close>

lemma model_output_shape:
  assumes "1 \<le> n"
  shows "run_model shape_engine shape_add no_params model [n, 224, 224, 3] = Inr [n, 10]"
  using assms
  by (simp add: model_def filter_configuration_eq build_def stem_def ResUnit_init_fst
      Let_def split_beta call_def apply_layer_def shape_engine_def shape_add_def
      all_positive_def ceil_div_def DefaultConv2D_def)

text \<open>
  An engine that follows the shape rules returns, wherever the run on shapes returns a
  shape, a tensor of that shape: for a list of layers, for a unit, for a model.
\<close>

lemma unit_params: "(\<lambda>i. ()) = no_params"
  by (simp add: fun_eq_iff)

lemma then_do_eq_Inr: "then_do r k = Inr s \<longleftrightarrow> (\<exists>v. r = Inr v \<and> k v = Inr s)"
  by (cases r) simp_all

lemma run_layers_follows:
  assumes "follows_shapes engine add shape_of"
    and "run_layers shape_engine no_params ls (shape_of t) = Inr s"
  shows "\<exists>y. run_layers engine params ls t = Inr y \<and> shape_of y = s"
  using assms(2)
proof (induction ls arbitrary: t)
  case Nil
  then show ?case by simp
next
  case (Cons l ls)
  from Cons.prems have "\<exists>s1. shape_engine (config l) () (shape_of t) = Inr s1
      \<and> run_layers shape_engine no_params ls s1 = Inr s"
    by (auto simp: then_do_eq_Inr apply_layer_def unit_params)
  then obtain s1 where
    step: "shape_engine (config l) () (shape_of t) = Inr s1"
    and rest: "run_layers shape_engine no_params ls s1 = Inr s"
    by blast
  from assms(1) step obtain y1 where
    y1: "engine (config l) (params (ident l)) t = Inr y1" "shape_of y1 = s1"
    unfolding follows_shapes_def by blast
  from Cons.IH [of y1] rest [unfolded y1(2) [symmetric]] obtain y where
    "run_layers engine params ls y1 = Inr y" "shape_of y = s"
    by blast
  with y1(1) show ?case by (simp add: apply_layer_def)
qed

lemma call_follows:
  assumes contract: "follows_shapes engine add shape_of"
    and shapes: "snd (call shape_engine shape_add no_params u (shape_of t)) = Inr s"
  shows "\<exists>y. snd (call engine add params u t) = Inr y \<and> shape_of y = s"
proof -
  from shapes have "\<exists>sm sk sa.
      run_layers shape_engine no_params (main_layers u) (shape_of t) = Inr sm
      \<and> run_layers shape_engine no_params (skip_layers u) (shape_of t) = Inr sk
      \<and> shape_add sm sk = Inr sa
      \<and> shape_engine (config (activation u)) () sa = Inr s"
    by (simp add: call_def then_do_eq_Inr apply_layer_def unit_params)
  then obtain sm sk sa where
    main: "run_layers shape_engine no_params (main_layers u) (shape_of t) = Inr sm"
    and skip: "run_layers shape_engine no_params (skip_layers u) (shape_of t) = Inr sk"
    and sum: "shape_add sm sk = Inr sa"
    and act: "shape_engine (config (activation u)) () sa = Inr s"
    by blast
  from run_layers_follows [OF contract main] obtain ym where
    ym: "run_layers engine params (main_layers u) t = Inr ym" "shape_of ym = sm"
    by blast
  from run_layers_follows [OF contract skip] obtain yk where
    yk: "run_layers engine params (skip_layers u) t = Inr yk" "shape_of yk = sk"
    by blast
  from contract sum ym(2) yk(2) obtain ya where
    ya: "add ym yk = Inr ya" "shape_of ya = sa"
    unfolding follows_shapes_def by blast
  from contract act ya(2) obtain y where
    y: "engine (config (activation u)) (params (ident (activation u))) ya = Inr y" "shape_of y = s"
    unfolding follows_shapes_def by blast
  from ym(1) yk(1) ya(1) y show ?thesis
    by (simp add: call_def apply_layer_def)
qed

lemma run_model_follows:
  assumes contract: "follows_shapes engine add shape_of"
    and "run_model shape_engine shape_add no_params m (shape_of t) = Inr s"
  shows "\<exists>y. run_model engine add params m t = Inr y \<and> shape_of y = s"
  using assms(2)
proof (induction m arbitrary: t)
  case Nil
  then show ?case by simp
next
  case (Cons x m)
  show ?case
  proof (cases x)
    case (Prim l)
    with Cons.prems have "\<exists>s1. shape_engine (config l) () (shape_of t) = Inr s1
        \<and> run_model shape_engine shape_add no_params m s1 = Inr s"
      by (auto simp: then_do_eq_Inr apply_layer_def unit_params)
    then obtain s1 where
      step: "shape_engine (config l) () (shape_of t) = Inr s1"
      and rest: "run_model shape_engine shape_add no_params m s1 = Inr s"
      by blast
    from contract step obtain y1 where
      y1: "engine (config l) (params (ident l)) t = Inr y1" "shape_of y1 = s1"
      unfolding follows_shapes_def by blast
    from Cons.IH [of y1] rest [unfolded y1(2) [symmetric]] obtain y where
      "run_model engine add params m y1 = Inr y" "shape_of y = s"
      by blast
    with y1(1) Prim show ?thesis by (simp add: apply_layer_def)
  next
    case (Unit u)
    with Cons.prems have "\<exists>s1. snd (call shape_engine shape_add no_params u (shape_of t)) = Inr s1
        \<and> run_model shape_engine shape_add no_params m s1 = Inr s"
      by (simp add: then_do_eq_Inr unit_params)
    then obtain s1 where
      step: "snd (call shape_engine shape_add no_params u (shape_of t)) = Inr s1"
      and rest: "run_model shape_engine shape_add no_params m s1 = Inr s"
      by blast
    from call_follows [OF contract step] obtain y1 where
      y1: "snd (call engine add params u t) = Inr y1" "shape_of y1 = s1"
      by blast
    from Cons.IH [of y1] rest [unfolded y1(2) [symmetric]] obtain y where
      "run_model engine add params m y1 = Inr y" "shape_of y = s"
      by blast
    with y1(1) Unit show ?thesis by simp
  qed
qed

lemma run_model_append:
  "run_model engine add params (m @ m') t =
     then_do (run_model engine add params m t) (run_model engine add params m')"
proof (induction m arbitrary: t)
  case Nil
  show ?case by simp
next
  case (Cons x m)
  then show ?case
    by (cases x) (simp_all add: then_do_def split: sum.splits)
qed

text \<open>Every model the builder returns ends with the dense layer.\<close>

lemma build_ends_dense:
  "\<exists>pre i. build schedule previous_filters = pre @ [Prim (Layer i (Dense 10 ''softmax''))]"
proof -
  obtain m1 pf n1 where loop: "add_res_units schedule previous_filters (fst (stem 0)) (snd (stem 0)) = (m1, pf, n1)"
    by (cases "add_res_units schedule previous_filters (fst (stem 0)) (snd (stem 0))")
  have "build schedule previous_filters =
          (m1 @ [Prim (Layer n1 GlobalAvgPool2D), Prim (Layer (n1 + 1) Flatten)])
          @ [Prim (Layer (n1 + 2) (Dense 10 ''softmax''))]"
    using loop by (simp add: build_def split_beta)
  then show ?thesis by blast
qed

text \<open>The zero-weight engine meets both contracts.\<close>

lemma uniform_follows_shapes: "follows_shapes uniform_engine uniform_add fst"
  by (auto simp: follows_shapes_def uniform_engine_def uniform_add_def)

lemma uniform_softmax: "softmax_contract uniform_engine fst snd 0"
  unfolding softmax_contract_def
proof (intro allI impI)
  fix units :: int and p :: unit and t y :: "int list \<times> real list list" and n :: int
  assume a: "uniform_engine (Dense units ''softmax'') p t = Inr y \<and> fst y = [n, units]"
  then obtain s where s: "shape_engine (Dense units ''softmax'') p (fst t) = Inr s"
    and y: "y = (s, case s of [n, k] \<Rightarrow> replicate (nat n) (replicate (nat k) (1 / of_int k)) | _ \<Rightarrow> [])"
    by (auto simp: uniform_engine_def then_do_eq_Inr)
  from a y have shape: "s = [n, units]" by simp
  have pos: "1 \<le> units"
    using s by (auto simp: shape_engine_def split: if_splits list.splits)
  have rows: "snd y = replicate (nat n) (replicate (nat units) (1 / of_int units))"
    using y shape by simp
  have "sum_list (replicate (nat units) (1 / real_of_int units)) = 1"
    using pos by (simp add: sum_list_replicate)
  with pos rows show "length (snd y) = nat n
        \<and> list_all (\<lambda>r. int (length r) = units \<and> list_all (\<lambda>v. 0 \<le> v) r
                         \<and> \<bar>sum_list r - 1\<bar> \<le> 0) (snd y)"
    by (simp add: list_all_iff)
qed

text \<open>
  Sets of possible results: a layer list, and a call, over a deterministic engine has
  at most one; over an engine given as a function it has exactly the result of \<open>call\<close>.
\<close>

lemma at_most_one_then_any:
  assumes "at_most_one R" and "\<And>v. at_most_one (k v)"
  shows "at_most_one (then_any R k)"
  unfolding at_most_one_def then_any_def
proof (intro ballI)
  fix a b
  assume "a \<in> (\<Union>r\<in>R. case r of Inl e \<Rightarrow> {Inl e} | Inr v \<Rightarrow> k v)"
    and "b \<in> (\<Union>r\<in>R. case r of Inl e \<Rightarrow> {Inl e} | Inr v \<Rightarrow> k v)"
  then obtain r r' where r: "r \<in> R" "a \<in> (case r of Inl e \<Rightarrow> {Inl e} | Inr v \<Rightarrow> k v)"
    and r': "r' \<in> R" "b \<in> (case r' of Inl e \<Rightarrow> {Inl e} | Inr v \<Rightarrow> k v)"
    by blast
  from assms(1) r(1) r'(1) have same: "r' = r" by (simp add: at_most_one_def)
  show "a = b"
  proof (cases r)
    case (Inl e)
    with r(2) r'(2) same show ?thesis by simp
  next
    case (Inr v)
    with r(2) r'(2) same assms(2) [of v] show ?thesis by (simp add: at_most_one_def)
  qed
qed

lemma at_most_one_single: "at_most_one {x}"
  by (simp add: at_most_one_def)

lemma at_most_one_run_layers:
  assumes "deterministic_engine engine"
  shows "at_most_one (run_layers_any engine params ls t)"
proof (induction ls arbitrary: t)
  case Nil
  show ?case by (simp add: at_most_one_single)
next
  case (Cons l ls)
  from assms have "at_most_one (engine (config l) (params (ident l)) t)"
    by (simp add: deterministic_engine_def)
  then show ?case using Cons.IH by (simp add: at_most_one_then_any)
qed

lemma at_most_one_call:
  assumes "deterministic_engine engine" and "deterministic_add add"
  shows "at_most_one (call_outcomes engine add params u t)"
  unfolding call_outcomes_def
proof (intro at_most_one_then_any at_most_one_run_layers assms(1))
  fix m k s
  show "at_most_one (add m k)"
    using assms(2) by (simp add: deterministic_add_def)
  show "at_most_one (engine (config (activation u)) (params (ident (activation u))) s)"
    using assms(1) by (simp add: deterministic_engine_def)
qed

lemma run_layers_any_Nil_fun: "run_layers_any engine params [] = (\<lambda>t. {Inr t})"
  by (rule ext) simp

lemma run_layers_any_Cons_fun:
  "run_layers_any engine params (l # ls) =
     (\<lambda>t. then_any (engine (config l) (params (ident l)) t) (run_layers_any engine params ls))"
  by (rule ext) simp

lemma then_any_single: "then_any {r} (\<lambda>v. {k v}) = {then_do r k}"
  by (cases r) (simp_all add: then_any_def)

lemma sure_engine_apply: "sure_engine f c p t = {f c p t}"
  by (simp add: sure_engine_def)

lemma sure_add_apply: "sure_add g a b = {g a b}"
  by (simp add: sure_add_def)

lemma run_layers_any_sure:
  "run_layers_any (sure_engine f) params ls t = {run_layers f params ls t}"
proof (induction ls arbitrary: t)
  case Nil
  show ?case by simp
next
  case (Cons l ls)
  have rest: "run_layers_any (sure_engine f) params ls = (\<lambda>t. {run_layers f params ls t})"
    using Cons.IH by (intro ext)
  have "run_layers_any (sure_engine f) params (l # ls) t =
          then_any (sure_engine f (config l) (params (ident l)) t) (\<lambda>t. {run_layers f params ls t})"
    unfolding run_layers_any.simps rest ..
  also have "\<dots> = {then_do (f (config l) (params (ident l)) t) (run_layers f params ls)}"
    unfolding sure_engine_apply then_any_single ..
  finally show ?case
    by (simp add: apply_layer_def)
qed

lemma call_outcomes_sure:
  "call_outcomes (sure_engine f) (sure_add g) params u t = {snd (call f g params u t)}"
proof -
  have act: "sure_engine f (config (activation u)) (params (ident (activation u))) =
               (\<lambda>s. {apply_layer f params (activation u) s})"
    by (intro ext) (simp add: sure_engine_apply apply_layer_def)
  show ?thesis
    by (simp add: call_outcomes_def call_def run_layers_any_sure act sure_add_apply then_any_single)
qed

lemma deterministic_sure_engine: "deterministic_engine (sure_engine f)"
  by (simp add: deterministic_engine_def sure_engine_apply at_most_one_def)

lemma deterministic_sure_add: "deterministic_add (sure_add g)"
  by (simp add: deterministic_add_def sure_add_apply at_most_one_def)

text \<open>
  Over the engine that may or may not record an activation, one unit on one input has
  more than one possible result: the contract on the engine is what the equality of
  two runs rests on.
\<close>

lemma unsure_engine_two_outcomes:
  "Inr [] \<in> call_outcomes unsure_engine (sure_add trace_add) (params_from 0)
              (fst (ResUnit_init 64 1 ''relu'' 0)) []
   \<and> Inr [(Activation ''relu'', 0)] \<in> call_outcomes unsure_engine (sure_add trace_add) (params_from 0)
              (fst (ResUnit_init 64 1 ''relu'' 0)) []"
  by (simp add: call_outcomes_def ResUnit_init_fst then_any_def unsure_engine_def sure_add_apply
      trace_add_def params_from_def)

subsection \<open>The stride schedule\<close>

text \<open>
  C1. For the schedule [64,64,64,128,128,128,128,256,256,256,256,256,256,512,512,512]
  and \<^verbatim>\<open>previous_filters\<close> starting at 64, the residual units of the built model carry,
  in order, the strides [1,1,1,2,1,1,1,2,1,1,1,1,1,2,1,1]: sixteen entries, the first
  of them 1. This schedule and this start are the ones of the notebook's model.
\<close>

theorem stride_sequence:
  "map unit_strides
     (res_units (build [64,64,64,128,128,128,128,256,256,256,256,256,256,512,512,512] 64)) =
     [Some 1, Some 1, Some 1, Some 2, Some 1, Some 1, Some 1, Some 2,
      Some 1, Some 1, Some 1, Some 1, Some 1, Some 2, Some 1, Some 1]
   \<and> model = build [64,64,64,128,128,128,128,256,256,256,256,256,256,512,512,512] 64"
  by (simp add: model_def filter_configuration_eq build_def stem_def ResUnit_init_fst
      res_units_def unit_strides_def Let_def split_beta)

subsection \<open>Evaluation of a residual unit\<close>

text \<open>
  C2. For every input, engine and parameter values, evaluating a constructed unit
  applies the five layers of the main path one after the other, starting from the
  input; applies the skip path (two layers when \<open>strides > 1\<close>, none otherwise) to the
  same input; adds the two results; and applies the activation to the sum. The
  activation applied to the sum is the layer object \<open>n\<close>, the one that is third in the
  main path. An exception of a layer or of the addition ends the evaluation with that
  exception.
\<close>

theorem call_activation_of_sum:
  "snd (call engine add params (fst (ResUnit_init filters strides activation_name n)) inputs) =
     then_do (engine (Conv2D filters 3 strides ''same'' ''he_normal'' False None) (params (n + 1)) inputs) (\<lambda>t1.
     then_do (engine BatchNormalization (params (n + 2)) t1) (\<lambda>t2.
     then_do (engine (Activation activation_name) (params n) t2) (\<lambda>t3.
     then_do (engine (Conv2D filters 3 1 ''same'' ''he_normal'' False None) (params (n + 3)) t3) (\<lambda>t4.
     then_do (engine BatchNormalization (params (n + 4)) t4) (\<lambda>main_output.
     then_do (if 1 < strides
              then then_do (engine (Conv2D filters 1 strides ''same'' ''he_normal'' False None) (params (n + 5)) inputs)
                     (engine BatchNormalization (params (n + 6)))
              else Inr inputs) (\<lambda>skip_output.
     then_do (add main_output skip_output)
       (engine (Activation activation_name) (params n))))))))"
  by (simp add: call_def ResUnit_init_def Let_def DefaultConv2D_def apply_layer_def then_do_assoc)

subsection \<open>Construction of a residual unit\<close>

text \<open>
  C3. For all \<^verbatim>\<open>filters\<close> and \<^verbatim>\<open>strides\<close>, the constructed skip path is a 1 x 1
  convolution with the unit's stride and channel count and no bias, followed by a
  normalisation, when \<open>strides > 1\<close>, and is empty otherwise. So a skip path is present
  only when \<open>strides > 1\<close>.
\<close>

theorem skip_layers_iff_strides:
  "skip_layers (fst (ResUnit_init filters strides activation_name n)) =
     (if 1 < strides
      then [Layer (n + 5) (Conv2D filters 1 strides ''same'' ''he_normal'' False None),
            Layer (n + 6) BatchNormalization]
      else [])"
  by (simp add: ResUnit_init_def Let_def DefaultConv2D_def)

text \<open>
  C4. In every state of a constructed unit's life (as constructed, and after any
  number of calls with any parameter values and inputs) the main path has exactly 5
  layers and the skip path has none or exactly 2.
\<close>

theorem layer_counts_invariant:
  assumes "u \<in> lifetime engine add (fst (ResUnit_init filters strides activation_name n))"
  shows "length (main_layers u) = 5 \<and> (length (skip_layers u) = 0 \<or> length (skip_layers u) = 2)"
  using assms
proof (induction rule: lifetime.induct)
  case lifetime_init
  show ?case by (simp add: ResUnit_init_fst)
next
  case (lifetime_call u params inputs)
  then show ?case by (simp add: call_def)
qed

theorem layer_counts_invariant_witness:
  "fst (call shape_engine shape_add no_params (fst (ResUnit_init 128 2 ''relu'' 0)) [1, 56, 56, 64])
     \<in> lifetime shape_engine shape_add (fst (ResUnit_init 128 2 ''relu'' 0))
   \<and> length (main_layers (fst (call shape_engine shape_add no_params
        (fst (ResUnit_init 128 2 ''relu'' 0)) [1, 56, 56, 64]))) = 5
   \<and> length (skip_layers (fst (call shape_engine shape_add no_params
        (fst (ResUnit_init 128 2 ''relu'' 0)) [1, 56, 56, 64]))) = 2"
proof -
  have reach: "fst (call shape_engine shape_add no_params (fst (ResUnit_init 128 2 ''relu'' 0)) [1, 56, 56, 64])
     \<in> lifetime shape_engine shape_add (fst (ResUnit_init 128 2 ''relu'' 0))"
    by (rule lifetime_call [OF lifetime_init])
  show ?thesis
    using reach layer_counts_invariant [OF reach]
    by (simp add: call_def ResUnit_init_fst)
qed

text \<open>
  C5. For all \<^verbatim>\<open>filters\<close> and \<^verbatim>\<open>strides\<close>, the constructed main path is, in this
  order: a convolution with kernel size 3, the given stride, "same" padding, the
  "he_normal" initializer and no bias; a normalisation; the unit's activation (the
  same object as its \<open>activation\<close> attribute); a second convolution of the same template
  at stride 1; a second normalisation.
\<close>

theorem main_layers_template:
  "main_layers (fst (ResUnit_init filters strides activation_name n)) =
     [Layer (n + 1) (Conv2D filters 3 strides ''same'' ''he_normal'' False None),
      Layer (n + 2) BatchNormalization,
      Layer n (Activation activation_name),
      Layer (n + 3) (Conv2D filters 3 1 ''same'' ''he_normal'' False None),
      Layer (n + 4) BatchNormalization]
   \<and> activation (fst (ResUnit_init filters strides activation_name n)) =
       Layer n (Activation activation_name)"
  by (simp add: ResUnit_init_def Let_def DefaultConv2D_def)

subsection \<open>The built network\<close>

text \<open>
  C6. For every schedule and initial \<^verbatim>\<open>previous_filters\<close> (the notebook's among them),
  the builder emits, in this order: the stem, namely a convolution with 64 filters,
  kernel 7, stride 2, "same" padding, no bias and input shape 224 x 224 x 3, a
  normalisation, a "relu" activation and a max-pool with window 3, stride 2 and "same"
  padding; then one residual unit per schedule entry, in schedule order, each
  constructed with its entry as filter count; then the head, namely global average
  pooling, flatten, and a dense layer with softmax.
\<close>

theorem builder_order:
  "\<exists>us n. build schedule previous_filters =
      [Prim (Layer 0 (Conv2D 64 7 2 ''same'' ''he_normal'' False (Some [224, 224, 3]))),
       Prim (Layer 1 BatchNormalization),
       Prim (Layer 2 (Activation ''relu'')),
       Prim (Layer 3 (MaxPool2D 3 2 ''same''))]
      @ map Unit us
      @ [Prim (Layer n GlobalAvgPool2D),
         Prim (Layer (n + 1) Flatten),
         Prim (Layer (n + 2) (Dense 10 ''softmax''))]
    \<and> list_all2
         (\<lambda>u (filters, previous).
             \<exists>i. u = fst (ResUnit_init filters (if filters = previous then 1 else 2) ''relu'' i))
         us (zip schedule (previous_filters # schedule))"
proof -
  obtain us n' where
    loop: "add_res_units schedule previous_filters (fst (stem 0)) (snd (stem 0)) =
       (fst (stem 0) @ map Unit us, last (previous_filters # schedule), n')"
    and units: "list_all2
         (\<lambda>u (filters, previous).
             \<exists>i. u = fst (ResUnit_init filters (if filters = previous then 1 else 2) ''relu'' i))
         us (zip schedule (previous_filters # schedule))"
    using add_res_units_units [of schedule previous_filters "fst (stem 0)" "snd (stem 0)"]
    by blast
  have "build schedule previous_filters =
      [Prim (Layer 0 (Conv2D 64 7 2 ''same'' ''he_normal'' False (Some [224, 224, 3]))),
       Prim (Layer 1 BatchNormalization),
       Prim (Layer 2 (Activation ''relu'')),
       Prim (Layer 3 (MaxPool2D 3 2 ''same''))]
      @ map Unit us
      @ [Prim (Layer n' GlobalAvgPool2D),
         Prim (Layer (n' + 1) Flatten),
         Prim (Layer (n' + 2) (Dense 10 ''softmax''))]"
    using loop by (simp add: build_def stem_def DefaultConv2D_def)
  with units show ?thesis by blast
qed

subsection \<open>Identity skip path and input channels\<close>

text \<open>
  C7, as stated, fails: a unit with 64 filters and stride 1 is constructed without any
  rejection and has the identity skip path; the constructor has no argument for the
  channel count of the input. Evaluated at shape level on an input with 1 channel it
  returns a result of 64 channels and nothing is raised (the addition broadcasts); on
  an input with 3 channels the addition raises, at evaluation.
\<close>

theorem unchecked_identity_skip_counterexample:
  "skip_layers (fst (ResUnit_init 64 1 ''relu'' 0)) = []
   \<and> snd (call shape_engine shape_add no_params (fst (ResUnit_init 64 1 ''relu'' 0)) [1, 56, 56, 1])
       = Inr [1, 56, 56, 64]
   \<and> snd (call shape_engine shape_add no_params (fst (ResUnit_init 64 1 ''relu'' 0)) [1, 56, 56, 3])
       = Inl ShapeError"
  by (simp add: call_def ResUnit_init_fst apply_layer_def shape_engine_def shape_add_def
      all_positive_def ceil_div_def)

text \<open>
  C7, amended. A unit constructed with stride 1 has the identity skip path whatever
  its filter count, and the constructor does not see the input. When the unit as
  constructed is evaluated for the first time, at shape level, on an input (batch,
  height, width, channels) whose channel count differs from the filter count, the
  mismatch is raised as a shape error whenever neither of the two counts is 1; when
  one of them is 1 nothing is raised and the result has the other count as its channel
  count. (Layers keep no shape from an earlier evaluation in this model.)
\<close>

theorem identity_skip_mismatch:
  assumes "c \<noteq> filters" and "1 \<le> filters" and "1 \<le> b" and "1 \<le> h" and "1 \<le> w" and "1 \<le> c"
  shows "skip_layers (fst (ResUnit_init filters 1 activation_name n)) = []
   \<and> snd (call shape_engine shape_add no_params
           (fst (ResUnit_init filters 1 activation_name n)) [b, h, w, c]) =
       (if c = 1 then Inr [b, h, w, filters]
        else if filters = 1 then Inr [b, h, w, c]
        else Inl ShapeError)"
  using assms
  by (simp add: call_def ResUnit_init_fst apply_layer_def shape_engine_def shape_add_def
      all_positive_def ceil_div_def)

theorem identity_skip_mismatch_witness:
  "(64::int) \<noteq> 128 \<and> (1::int) \<le> 128 \<and> (1::int) \<le> 2 \<and> (1::int) \<le> 28 \<and> (1::int) \<le> 64
   \<and> skip_layers (fst (ResUnit_init 128 1 ''relu'' 0)) = []
   \<and> snd (call shape_engine shape_add no_params (fst (ResUnit_init 128 1 ''relu'' 0)) [2, 28, 28, 64])
       = Inl ShapeError"
  using identity_skip_mismatch [of 64 128 2 28 28 "''relu''" 0]
  by simp

subsection \<open>Two runs\<close>

text \<open>
  C9. Let the engine's layers and its addition be deterministic. Two units constructed
  independently (from different layer numbers \<open>n1\<close> and \<open>n2\<close>, so that they share no
  layer object) with the same filters, strides and activation, whose corresponding
  layers hold the same parameter values, are evaluated on the same input: whatever
  the first evaluation may result in and whatever the second may result in, the two
  results are the same tensor, or the same exception.
\<close>

theorem two_run_equality:
  assumes "deterministic_engine engine" and "deterministic_add add"
    and "map params1 (unit_layer_ids (fst (ResUnit_init filters strides activation_name n1))) =
         map params2 (unit_layer_ids (fst (ResUnit_init filters strides activation_name n2)))"
    and "r1 \<in> call_outcomes engine add params1 (fst (ResUnit_init filters strides activation_name n1)) inputs"
    and "r2 \<in> call_outcomes engine add params2 (fst (ResUnit_init filters strides activation_name n2)) inputs"
  shows "r1 = r2"
proof -
  have "call_outcomes engine add params2 (fst (ResUnit_init filters strides activation_name n2)) inputs =
        call_outcomes engine add params1 (fst (ResUnit_init filters strides activation_name n1)) inputs"
    using assms(3)
    by (simp add: call_outcomes_def ResUnit_init_fst unit_layer_ids_def
        run_layers_any_Nil_fun run_layers_any_Cons_fun split: if_splits)
  with assms(5) have "r2 \<in> call_outcomes engine add params1
      (fst (ResUnit_init filters strides activation_name n1)) inputs"
    by simp
  with assms(4) at_most_one_call [OF assms(1) assms(2)] show ?thesis
    by (simp add: at_most_one_def)
qed

theorem two_run_equality_witness:
  "deterministic_engine (sure_engine trace_engine) \<and> deterministic_add (sure_add trace_add)
   \<and> map (params_from 0) (unit_layer_ids (fst (ResUnit_init 128 2 ''relu'' 0))) =
     map (params_from 7) (unit_layer_ids (fst (ResUnit_init 128 2 ''relu'' 7)))
   \<and> snd (call trace_engine trace_add (params_from 0) (fst (ResUnit_init 128 2 ''relu'' 0)) [])
       \<in> call_outcomes (sure_engine trace_engine) (sure_add trace_add) (params_from 0)
           (fst (ResUnit_init 128 2 ''relu'' 0)) []
   \<and> snd (call trace_engine trace_add (params_from 7) (fst (ResUnit_init 128 2 ''relu'' 7)) [])
       \<in> call_outcomes (sure_engine trace_engine) (sure_add trace_add) (params_from 7)
           (fst (ResUnit_init 128 2 ''relu'' 7)) []
   \<and> snd (call trace_engine trace_add (params_from 0) (fst (ResUnit_init 128 2 ''relu'' 0)) []) =
     snd (call trace_engine trace_add (params_from 7) (fst (ResUnit_init 128 2 ''relu'' 7)) [])
   \<and> fst (ResUnit_init 128 2 ''relu'' 0) \<noteq> fst (ResUnit_init 128 2 ''relu'' 7)"
proof -
  have same: "map (params_from 0) (unit_layer_ids (fst (ResUnit_init 128 2 ''relu'' 0))) =
              map (params_from 7) (unit_layer_ids (fst (ResUnit_init 128 2 ''relu'' 7)))"
    by (simp add: unit_layer_ids_def ResUnit_init_fst params_from_def)
  have first: "snd (call trace_engine trace_add (params_from 0) (fst (ResUnit_init 128 2 ''relu'' 0)) [])
       \<in> call_outcomes (sure_engine trace_engine) (sure_add trace_add) (params_from 0)
           (fst (ResUnit_init 128 2 ''relu'' 0)) []"
    by (simp add: call_outcomes_sure)
  have second: "snd (call trace_engine trace_add (params_from 7) (fst (ResUnit_init 128 2 ''relu'' 7)) [])
       \<in> call_outcomes (sure_engine trace_engine) (sure_add trace_add) (params_from 7)
           (fst (ResUnit_init 128 2 ''relu'' 7)) []"
    by (simp add: call_outcomes_sure)
  have differ: "fst (ResUnit_init 128 2 ''relu'' 0) \<noteq> fst (ResUnit_init 128 2 ''relu'' 7)"
    by (simp add: ResUnit_init_fst)
  show ?thesis
    using same first second differ deterministic_sure_engine [of trace_engine]
      deterministic_sure_add [of trace_add]
      two_run_equality [OF deterministic_sure_engine deterministic_sure_add same first second]
    by simp
qed

subsection \<open>The output of the network\<close>

text \<open>
  C8. Let the engine follow the shape rules and let its dense layer with softmax
  return rows of non-negative entries that sum to 1 within the tolerance \<open>eps\<close>. Then
  the notebook's model, applied to a batch of \<open>n\<close> inputs of shape 224 x 224 x 3 with
  \<open>n\<close> at least 1, returns a tensor and raises nothing; the tensor has shape \<open>(n, 10)\<close>,
  that is \<open>n\<close> rows of 10 entries; no entry is negative and every row sums to 1 within
  \<open>eps\<close>.
\<close>

theorem network_output:
  assumes "follows_shapes engine add shape_of"
    and "softmax_contract engine shape_of rows eps"
    and "shape_of x = [n, 224, 224, 3]" and "1 \<le> n"
  shows "\<exists>y. run_model engine add params model x = Inr y
           \<and> shape_of y = [n, 10]
           \<and> length (rows y) = nat n
           \<and> list_all (\<lambda>r. length r = 10 \<and> list_all (\<lambda>v. 0 \<le> v) r
                            \<and> \<bar>sum_list r - 1\<bar> \<le> eps) (rows y)"
proof -
  from model_output_shape [OF assms(4)] assms(3)
  have "run_model shape_engine shape_add no_params model (shape_of x) = Inr [n, 10]"
    by simp
  from run_model_follows [OF assms(1) this] obtain y where
    y: "run_model engine add params model x = Inr y" "shape_of y = [n, 10]"
    by blast
  from build_ends_dense [of filter_configuration 64] obtain pre i where
    ends: "model = pre @ [Prim (Layer i (Dense 10 ''softmax''))]"
    by (auto simp: model_def)
  from y(1) obtain t where
    "engine (Dense 10 ''softmax'') (params i) t = Inr y"
    by (auto simp: ends run_model_append then_do_eq_Inr apply_layer_def)
  with assms(2) y(2) have
    "length (rows y) = nat n
     \<and> list_all (\<lambda>r. int (length r) = 10 \<and> list_all (\<lambda>v. 0 \<le> v) r
                      \<and> \<bar>sum_list r - 1\<bar> \<le> eps) (rows y)"
    unfolding softmax_contract_def by blast
  with y show ?thesis by auto
qed

theorem network_output_witness:
  "follows_shapes uniform_engine uniform_add fst
   \<and> softmax_contract uniform_engine fst snd 0
   \<and> fst ([1, 224, 224, 3], []) = [1, 224, 224, 3] \<and> (1::int) \<le> 1
   \<and> (\<exists>y. run_model uniform_engine uniform_add no_params model ([1, 224, 224, 3], []) = Inr y
           \<and> fst y = [1, 10]
           \<and> length (snd y) = nat 1
           \<and> list_all (\<lambda>r. length r = 10 \<and> list_all (\<lambda>v. 0 \<le> v) r
                            \<and> \<bar>sum_list r - 1\<bar> \<le> 0) (snd y))"
proof -
  have shape: "fst (([1, 224, 224, 3], []) :: int list \<times> real list list) = [1, 224, 224, 3]"
    by simp
  have batch: "(1::int) \<le> 1"
    by simp
  show ?thesis
    using network_output [OF uniform_follows_shapes uniform_softmax shape batch, of no_params]
      uniform_follows_shapes uniform_softmax
    by simp
qed

subsection \<open>The class count\<close>

text \<open>
  C10. Whatever the schedule and the initial \<^verbatim>\<open>previous_filters\<close>, the model the
  builder returns ends with a dense layer of exactly 10 units: the class count is a
  constant of the builder.
\<close>

theorem class_count_fixed:
  "num_classes (build schedule previous_filters) = Some 10"
proof -
  obtain us n' where
    loop: "add_res_units schedule previous_filters (fst (stem 0)) (snd (stem 0)) =
       (fst (stem 0) @ map Unit us, last (previous_filters # schedule), n')"
    using add_res_units_units [of schedule previous_filters "fst (stem 0)" "snd (stem 0)"]
    by blast
  then show ?thesis
    by (simp add: build_def stem_def num_classes_def)
qed

end
